theory Spec2Isabelle
  imports Complex_Main
begin

section \<open>The irrigation skill of \<open>lambda_function.py\<close>\<close>

text \<open>
  The module keeps one piece of process state, the global \<open>start_time_global\<close>, and
  talks to three collaborators: the clock (\<open>time.time()\<close>), the IoT data client
  (\<open>update_thing_shadow\<close>, \<open>get_thing_shadow\<close>, \<open>publish\<close>) and the DynamoDB table
  (\<open>put_item\<close>). Each handler is embedded as a function from the environment of one
  invocation and the world before it to the spoken output and the world after it.

  Timestamps are Python floats (binary64) in the source. A float is embedded as the
  rational it denotes, and each arithmetic operation of the handlers rounds its exact
  result to the nearest binary64 value, as the machine does. \<open>time.sleep(1)\<close> changes
  nothing but the clock and has no counterpart below.
\<close>

subsection \<open>Values\<close>

text \<open>\<open>FLOW_RATE = 5\<close>, litres per minute.\<close>

definition FLOW_RATE :: rat where
  "FLOW_RATE = 5"

text \<open>
  Truth value of \<open>if start_time_global:\<close>. The global is \<open>None\<close> or a float, and a float
  is falsy exactly when it is \<open>0.0\<close>. \<open>truthy\<close> returns the start time the branch then
  works with.
\<close>

fun truthy :: "rat option \<Rightarrow> rat option" where
  "truthy None = None"
| "truthy (Some t) = (if t = 0 then None else Some t)"

text \<open>\<open>int(x)\<close> on a float truncates towards zero.\<close>

definition py_int :: "rat \<Rightarrow> int" where
  "py_int x = (if 0 \<le> x then \<lfloor>x\<rfloor> else \<lceil>x\<rceil>)"

text \<open>
  Binary64 arithmetic. \<open>round_half_even y\<close> is the integer nearest to \<open>y\<close>, a tie
  going to the even one; \<open>bits n\<close> is the length of \<open>n\<close> in binary, \<open>floor_log2 x\<close> the
  exponent of the power of two at or below a positive \<open>x\<close>, and \<open>fl x\<close> the binary64
  value nearest to \<open>x\<close>: a multiple of the spacing \<open>2 ^ (e - 52)\<close> of the binade of \<open>x\<close>
  (the subnormal spacing below \<open>2 ^ - 1022\<close>), a tie going to the even mantissa.
  Overflow to infinity is not modelled; it takes magnitudes near \<open>10 ^ 308\<close>.
\<close>

definition round_half_even :: "rat \<Rightarrow> int" where
  "round_half_even y =
     (let f = \<lfloor>y\<rfloor>; d = y - of_int f
      in if d < 1 / 2 then f
         else if 1 / 2 < d then f + 1
         else if even f then f else f + 1)"

function bits :: "int \<Rightarrow> int" where
  "bits n = (if n \<le> 0 then 0 else 1 + bits (n div 2))"
  by pat_completeness auto
termination
  by (relation "measure nat") auto

declare bits.simps [simp del]

definition floor_log2 :: "rat \<Rightarrow> int" where
  "floor_log2 x =
     (if 1 \<le> x then bits \<lfloor>x\<rfloor> - 1 else - bits (\<lceil>1 / x\<rceil> - 1))"

definition pow2 :: "int \<Rightarrow> rat" where
  "pow2 i = (if 0 \<le> i then 2 ^ nat i else 1 / 2 ^ nat (- i))"

definition fl :: "rat \<Rightarrow> rat" where
  "fl x =
     (if x = 0 then 0
      else (let e = max (floor_log2 \<bar>x\<bar>) (- 1022); u = pow2 (e - 52)
            in of_int (round_half_even (x / u)) * u))"

text \<open>
  The float operations of the handlers: \<open>a - b\<close>, \<open>a / b\<close>, \<open>a * b\<close>. The integers
  \<open>60\<close> and \<open>FLOW_RATE\<close> are converted to floats exactly.
\<close>

definition fsub :: "rat \<Rightarrow> rat \<Rightarrow> rat" where
  "fsub a b = fl (a - b)"

definition fdiv :: "rat \<Rightarrow> rat \<Rightarrow> rat" where
  "fdiv a b = fl (a / b)"

definition fmul :: "rat \<Rightarrow> rat \<Rightarrow> rat" where
  "fmul a b = fl (a * b)"

text \<open>
  \<open>round(x, 2)\<close> of a float \<open>x\<close>, read as the decimal that \<open>str\<close> prints for it, which is
  all the handlers do with the result (\<open>Decimal(str(...))\<close> in \<open>insertar_datos_riego\<close>,
  the f-string of the spoken sentence). \<open>round\<close> takes the binary value of \<open>x\<close> to the
  nearest multiple of \<open>1/100\<close>, a tie going to the even one, and returns the float
  nearest to that decimal; \<open>str\<close> of that float prints the decimal itself as long as it
  has at most 15 significant digits, that is for magnitudes below \<open>10 ^ 13\<close>.
\<close>

definition py_round2 :: "rat \<Rightarrow> rat" where
  "py_round2 x = of_int (round_half_even (x * 100)) / 100"

text \<open>
  \<open>time.strftime("%Y-%m-%dT%H:%M:%SZ", time.gmtime(t))\<close>: \<open>gmtime\<close> drops the fraction
  of a second (it rounds down), and the formatted string is determined by the whole
  second reached, which is what \<open>ISO\<close> carries.
\<close>

datatype iso_time = ISO int

definition gmtime_iso :: "rat \<Rightarrow> iso_time" where
  "gmtime_iso t = ISO \<lfloor>t\<rfloor>"

text \<open>
  The two shapes of \<open>evento_id\<close>: \<open>f"{int(end_time)}-{thing_name}"\<close> in the deactivation
  handler, \<open>f"{time.time()}-{thing_name}"\<close> (the float, not truncated) in the moisture
  handler.
\<close>

datatype event_id = IdInt int string | IdFloat rat string

text \<open>The item \<open>insertar_datos_riego\<close> builds, field by field.\<close>

record item =
  ID :: event_id
  StartTime :: iso_time
  EndTime :: "iso_time option"
  Duration :: "rat option"
  WaterVolume :: "rat option"
  SoilMoisture :: "int option"
  ThingID :: string
  SystemStatus :: string
  RequestTime :: iso_time
  UserID :: string

text \<open>The calls made on \<open>iot_client\<close>, in the order they are made.\<close>

datatype bomba = ON | OFF

datatype iot_call =
    UpdateShadow string bomba
  | GetShadow string
  | Publish string string

text \<open>
  What \<open>get_thing_shadow\<close> followed by
  \<open>json_state["state"]["reported"].get("humedad", None)\<close> comes to:
  the call raises; the document has no \<open>state\<close>/\<open>reported\<close> section, so the
  subscript raises \<open>KeyError\<close>; or the section is there and \<open>humedad\<close> is its value or
  \<open>None\<close>.
\<close>

datatype shadow_read = TransportError | NoReported | Reported "int option"

text \<open>
  The sentences passed to \<open>speak\<close>, one constructor per sentence of the source:
  \<^item> \<open>Activado\<close>: "El regador ha sido activado."
  \<^item> \<open>ProblemaActivar\<close>: "Hubo un problema al activar el regador, por favor intenta
    nuevamente."
  \<^item> \<open>Desactivado v\<close>: "El regador ha sido desactivado. Se utilizaron aproximadamente
    \<open>v\<close> litros de agua.", \<open>v\<close> being \<open>round(water_volume, 2)\<close>
  \<^item> \<open>NoEstabaActivado\<close>: "El regador no estaba activado."
  \<^item> \<open>ProblemaDesactivar\<close>: "Hubo un problema al desactivar el regador, por favor
    intenta nuevamente."
  \<^item> \<open>NoPuedoObtener\<close>: "No puedo obtener la humedad en este momento."
  \<^item> \<open>NivelHumedad h est\<close>: "El nivel de humedad es \<open>h\<close>. El suelo esta \<open>est\<close>.", where
    \<open>est\<close> is the word for moist (\<open>Humedo\<close>) or for dry (\<open>Seco\<close>)
  \<^item> \<open>ProblemaHumedad\<close>: "Hubo un problema al obtener la humedad. Por favor, intenta
    nuevamente."
\<close>

datatype estado = Humedo | Seco

datatype speech =
    Activado
  | ProblemaActivar
  | Desactivado rat
  | NoEstabaActivado
  | ProblemaDesactivar
  | NoPuedoObtener
  | NivelHumedad int estado
  | ProblemaHumedad

subsection \<open>World and environment\<close>

record world =
  start_time_global :: "rat option"
  iot_calls :: "iot_call list"
  dynamo_table :: "item list"

text \<open>
  The environment of one invocation: the configuration (\<open>thing_name\<close>), the request
  (\<open>user_id\<close>), the successive readings of \<open>time.time()\<close> during the invocation
  (\<open>clock e k\<close> is the reading of the \<open>k\<close>-th call, from 0, a binary64 value given as
  the rational it denotes), and how the collaborators
  answer: whether \<open>update_thing_shadow\<close>, \<open>publish\<close> and \<open>put_item\<close> return or raise,
  and what the shadow read gives.
\<close>

record env =
  thing_name :: string
  user_id :: string
  clock :: "nat \<Rightarrow> rat"
  update_ok :: bool
  publish_ok :: bool
  shadow :: shadow_read
  put_ok :: bool

definition session_open :: "world \<Rightarrow> bool" where
  "session_open w = (truthy (start_time_global w) \<noteq> None)"

definition iot_call_made :: "iot_call \<Rightarrow> world \<Rightarrow> world" where
  "iot_call_made c w = w\<lparr>iot_calls := iot_calls w @ [c]\<rparr>"

subsection \<open>The handlers\<close>

text \<open>
  \<open>insertar_datos_riego\<close>: the whole body is inside \<open>try\<close>, and the \<open>except\<close> only logs,
  so a failed \<open>put_item\<close> leaves the table as it was and the caller goes on.
\<close>

definition insertar_datos_riego ::
  "env \<Rightarrow> event_id \<Rightarrow> iso_time \<Rightarrow> iso_time option \<Rightarrow> rat option \<Rightarrow> rat option \<Rightarrow>
   int option \<Rightarrow> string \<Rightarrow> string \<Rightarrow> iso_time \<Rightarrow> string \<Rightarrow> world \<Rightarrow> world" where
  "insertar_datos_riego e evento_id start_time end_time duration water_volume
     soil_moisture thing_id system_status request_time uid w =
     (let it = \<lparr>ID = evento_id, StartTime = start_time, EndTime = end_time,
                 Duration = duration, WaterVolume = water_volume,
                 SoilMoisture = soil_moisture, ThingID = thing_id,
                 SystemStatus = system_status, RequestTime = request_time,
                 UserID = uid\<rparr>
      in if put_ok e then w\<lparr>dynamo_table := dynamo_table w @ [it]\<rparr> else w)"

text \<open>
  \<open>ActivarRegadorIntentHandler.handle\<close>: the start time is assigned before the \<open>try\<close>.
\<close>

definition ActivarRegador_handle :: "env \<Rightarrow> world \<Rightarrow> speech \<times> world" where
  "ActivarRegador_handle e w =
     (let w1 = w\<lparr>start_time_global := Some (clock e 0)\<rparr>;
          w2 = iot_call_made (UpdateShadow (thing_name e) ON) w1
      in if update_ok e then (Activado, w2) else (ProblemaActivar, w2))"

text \<open>\<open>DesactivarRegadorIntentHandler.handle\<close>.\<close>

definition DesactivarRegador_handle :: "env \<Rightarrow> world \<Rightarrow> speech \<times> world" where
  "DesactivarRegador_handle e w =
     (let end_time = clock e 0;
          w1 = iot_call_made (UpdateShadow (thing_name e) OFF) w
      in if \<not> update_ok e then (ProblemaDesactivar, w1)
         else (case truthy (start_time_global w1) of
                 Some start \<Rightarrow>
                   (let duration = fdiv (fsub end_time start) 60;
                        water_volume = fmul duration FLOW_RATE;
                        evento_id = IdInt (py_int end_time) (thing_name e);
                        w2 = iot_call_made (GetShadow (thing_name e)) w1
                    in case shadow e of
                         Reported humedad \<Rightarrow>
                           (let w3 = insertar_datos_riego e evento_id
                                       (gmtime_iso start)
                                       (Some (gmtime_iso end_time))
                                       (Some (py_round2 duration))
                                       (Some (py_round2 water_volume))
                                       humedad
                                       (thing_name e)
                                       ''Desactivado''
                                       (gmtime_iso end_time)
                                       (user_id e) w2
                            in (Desactivado (py_round2 water_volume),
                                w3\<lparr>start_time_global := None\<rparr>))
                       | _ \<Rightarrow> (ProblemaDesactivar, w2))
               | None \<Rightarrow> (NoEstabaActivado, w1)))"

text \<open>
  \<open>ConsultarHumedadIntentHandler.handle\<close>. The clock is read twice before the branch
  (\<open>evento_id\<close>, \<open>request_time\<close>), twice more in the dry branch (\<open>evento_id\<close> again, then
  \<open>start_time_global\<close>) and once more in each of the other two.
\<close>

definition ConsultarHumedad_handle :: "env \<Rightarrow> world \<Rightarrow> speech \<times> world" where
  "ConsultarHumedad_handle e w =
     (let w1 = iot_call_made (Publish ''sistema_riego/solicitud_humedad'' ''SOLICITAR_HUMEDAD'') w
      in if \<not> publish_ok e then (ProblemaHumedad, w1)
         else (let w2 = iot_call_made (GetShadow (thing_name e)) w1
               in case shadow e of
                    Reported None \<Rightarrow> (NoPuedoObtener, w2)
                  | Reported (Some humedad) \<Rightarrow>
                      (let est = (if humedad < 1300 then Humedo else Seco);
                           speak_output = NivelHumedad humedad est;
                           evento_id = IdFloat (clock e 0) (thing_name e);
                           request_time = gmtime_iso (clock e 1)
                       in if humedad > 1300 then
                            (let evento_id2 = IdFloat (clock e 2) (thing_name e);
                                 w3 = w2\<lparr>start_time_global := Some (clock e 3)\<rparr>
                             in (speak_output,
                                 insertar_datos_riego e evento_id2
                                   (gmtime_iso (clock e 3)) None None None
                                   (Some humedad) (thing_name e) ''Consulta Humedad''
                                   request_time (user_id e) w3))
                          else (case truthy (start_time_global w2) of
                                  Some start \<Rightarrow>
                                    (let end_time = clock e 2;
                                         duration = fdiv (fsub end_time start) 60;
                                         water_volume = fmul duration FLOW_RATE
                                     in (speak_output,
                                         insertar_datos_riego e evento_id
                                           (gmtime_iso start)
                                           (Some (gmtime_iso end_time))
                                           (Some (py_round2 duration))
                                           (Some (py_round2 water_volume))
                                           (Some humedad) (thing_name e)
                                           ''Consulta Humedad''
                                           request_time (user_id e) w2))
                                | None \<Rightarrow>
                                    (let w3 = w2\<lparr>start_time_global := Some (clock e 2)\<rparr>
                                     in (speak_output,
                                         insertar_datos_riego e evento_id
                                           (gmtime_iso (clock e 2)) None None None
                                           (Some humedad) (thing_name e)
                                           ''Consulta Humedad''
                                           request_time (user_id e) w3))))
                  | _ \<Rightarrow> (ProblemaHumedad, w2)))"

text \<open>A clock for concrete runs: each reading is one second after the one before.\<close>

definition ticking :: "rat \<Rightarrow> nat \<Rightarrow> rat" where
  "ticking t0 k = t0 + of_nat k"

text \<open>
  What an invocation added to the table: the items of the world after, beyond those of
  the world before.
\<close>

definition logged_by :: "world \<Rightarrow> world \<Rightarrow> item list" where
  "logged_by w w' = drop (length (dynamo_table w)) (dynamo_table w')"

text \<open>Concrete runs: a device, a user, and a world with nothing logged yet.\<close>

definition demo_env :: "rat \<Rightarrow> shadow_read \<Rightarrow> env" where
  "demo_env t0 sh =
     \<lparr>thing_name = ''regador'', user_id = ''usuario'', clock = ticking t0,
      update_ok = True, publish_ok = True, shadow = sh, put_ok = True\<rparr>"

definition demo_world :: "rat option \<Rightarrow> world" where
  "demo_world st = \<lparr>start_time_global = st, iot_calls = [], dynamo_table = []\<rparr>"

section \<open>Properties\<close>

subsection \<open>Each path of the handlers\<close>

lemma truthy_Some: "s \<noteq> 0 \<Longrightarrow> truthy (Some s) = Some s"
  by simp

lemma session_open_iff:
  "session_open w \<longleftrightarrow> (\<exists>s. start_time_global w = Some s \<and> s \<noteq> 0)"
  by (cases "start_time_global w") (simp_all add: session_open_def)

lemma not_session_open_truthy: "\<not> session_open w \<Longrightarrow> truthy (start_time_global w) = None"
  by (simp add: session_open_def)

lemma Activar_result:
  "ActivarRegador_handle e w =
     (if update_ok e then Activado else ProblemaActivar,
      w\<lparr>start_time_global := Some (clock e 0),
        iot_calls := iot_calls w @ [UpdateShadow (thing_name e) ON]\<rparr>)"
  by (simp add: ActivarRegador_handle_def iot_call_made_def Let_def)

lemma Desactivar_update_fails:
  "\<not> update_ok e \<Longrightarrow>
   DesactivarRegador_handle e w =
     (ProblemaDesactivar, w\<lparr>iot_calls := iot_calls w @ [UpdateShadow (thing_name e) OFF]\<rparr>)"
  by (simp add: DesactivarRegador_handle_def iot_call_made_def Let_def)

lemma Desactivar_not_open:
  "update_ok e \<Longrightarrow> \<not> session_open w \<Longrightarrow>
   DesactivarRegador_handle e w =
     (NoEstabaActivado, w\<lparr>iot_calls := iot_calls w @ [UpdateShadow (thing_name e) OFF]\<rparr>)"
  by (simp add: DesactivarRegador_handle_def iot_call_made_def Let_def
      not_session_open_truthy)

lemma Desactivar_read_fails:
  "update_ok e \<Longrightarrow> start_time_global w = Some s \<Longrightarrow> s \<noteq> 0 \<Longrightarrow>
   shadow e = TransportError \<or> shadow e = NoReported \<Longrightarrow>
   DesactivarRegador_handle e w =
     (ProblemaDesactivar,
      w\<lparr>iot_calls := iot_calls w @
            [UpdateShadow (thing_name e) OFF, GetShadow (thing_name e)]\<rparr>)"
  by (auto simp add: DesactivarRegador_handle_def iot_call_made_def Let_def)

lemma Desactivar_close:
  "update_ok e \<Longrightarrow> start_time_global w = Some s \<Longrightarrow> s \<noteq> 0 \<Longrightarrow>
   shadow e = Reported m \<Longrightarrow>
   DesactivarRegador_handle e w =
     (Desactivado (py_round2 (fmul (fdiv (fsub (clock e 0) s) 60) FLOW_RATE)),
      w\<lparr>start_time_global := None,
        iot_calls := iot_calls w @
            [UpdateShadow (thing_name e) OFF, GetShadow (thing_name e)],
        dynamo_table :=
          (if put_ok e then
             dynamo_table w @
               [\<lparr>ID = IdInt (py_int (clock e 0)) (thing_name e),
                 StartTime = gmtime_iso s,
                 EndTime = Some (gmtime_iso (clock e 0)),
                 Duration = Some (py_round2 (fdiv (fsub (clock e 0) s) 60)),
                 WaterVolume =
                   Some (py_round2 (fmul (fdiv (fsub (clock e 0) s) 60) FLOW_RATE)),
                 SoilMoisture = m,
                 ThingID = thing_name e,
                 SystemStatus = ''Desactivado'',
                 RequestTime = gmtime_iso (clock e 0),
                 UserID = user_id e\<rparr>]
           else dynamo_table w)\<rparr>)"
  by (simp add: DesactivarRegador_handle_def iot_call_made_def Let_def
      insertar_datos_riego_def)

lemma Consultar_publish_fails:
  "\<not> publish_ok e \<Longrightarrow>
   ConsultarHumedad_handle e w =
     (ProblemaHumedad,
      w\<lparr>iot_calls := iot_calls w @
            [Publish ''sistema_riego/solicitud_humedad'' ''SOLICITAR_HUMEDAD'']\<rparr>)"
  by (simp add: ConsultarHumedad_handle_def iot_call_made_def Let_def)



lemma Consultar_dry:
  "publish_ok e \<Longrightarrow> shadow e = Reported (Some h) \<Longrightarrow> 1300 < h \<Longrightarrow>
   ConsultarHumedad_handle e w =
     (NivelHumedad h Seco,
      w\<lparr>start_time_global := Some (clock e 3),
        iot_calls := iot_calls w @
            [Publish ''sistema_riego/solicitud_humedad'' ''SOLICITAR_HUMEDAD'',
             GetShadow (thing_name e)],
        dynamo_table :=
          (if put_ok e then
             dynamo_table w @
               [\<lparr>ID = IdFloat (clock e 2) (thing_name e),
                 StartTime = gmtime_iso (clock e 3),
                 EndTime = None, Duration = None, WaterVolume = None,
                 SoilMoisture = Some h,
                 ThingID = thing_name e,
                 SystemStatus = ''Consulta Humedad'',
                 RequestTime = gmtime_iso (clock e 1),
                 UserID = user_id e\<rparr>]
           else dynamo_table w)\<rparr>)"
  by (simp add: ConsultarHumedad_handle_def iot_call_made_def Let_def
      insertar_datos_riego_def)

lemma Consultar_moist_open:
  "publish_ok e \<Longrightarrow> shadow e = Reported (Some h) \<Longrightarrow> h \<le> 1300 \<Longrightarrow>
   start_time_global w = Some s \<Longrightarrow> s \<noteq> 0 \<Longrightarrow>
   ConsultarHumedad_handle e w =
     (NivelHumedad h (if h < 1300 then Humedo else Seco),
      w\<lparr>iot_calls := iot_calls w @
            [Publish ''sistema_riego/solicitud_humedad'' ''SOLICITAR_HUMEDAD'',
             GetShadow (thing_name e)],
        dynamo_table :=
          (if put_ok e then
             dynamo_table w @
               [\<lparr>ID = IdFloat (clock e 0) (thing_name e),
                 StartTime = gmtime_iso s,
                 EndTime = Some (gmtime_iso (clock e 2)),
                 Duration = Some (py_round2 (fdiv (fsub (clock e 2) s) 60)),
                 WaterVolume =
                   Some (py_round2 (fmul (fdiv (fsub (clock e 2) s) 60) FLOW_RATE)),
                 SoilMoisture = Some h,
                 ThingID = thing_name e,
                 SystemStatus = ''Consulta Humedad'',
                 RequestTime = gmtime_iso (clock e 1),
                 UserID = user_id e\<rparr>]
           else dynamo_table w)\<rparr>)"
  by (simp add: ConsultarHumedad_handle_def iot_call_made_def Let_def
      insertar_datos_riego_def)

lemma Consultar_moist_not_open:
  "publish_ok e \<Longrightarrow> shadow e = Reported (Some h) \<Longrightarrow> h \<le> 1300 \<Longrightarrow>
   \<not> session_open w \<Longrightarrow>
   ConsultarHumedad_handle e w =
     (NivelHumedad h (if h < 1300 then Humedo else Seco),
      w\<lparr>start_time_global := Some (clock e 2),
        iot_calls := iot_calls w @
            [Publish ''sistema_riego/solicitud_humedad'' ''SOLICITAR_HUMEDAD'',
             GetShadow (thing_name e)],
        dynamo_table :=
          (if put_ok e then
             dynamo_table w @
               [\<lparr>ID = IdFloat (clock e 0) (thing_name e),
                 StartTime = gmtime_iso (clock e 2),
                 EndTime = None, Duration = None, WaterVolume = None,
                 SoilMoisture = Some h,
                 ThingID = thing_name e,
                 SystemStatus = ''Consulta Humedad'',
                 RequestTime = gmtime_iso (clock e 1),
                 UserID = user_id e\<rparr>]
           else dynamo_table w)\<rparr>)"
  by (simp add: ConsultarHumedad_handle_def iot_call_made_def Let_def
      insertar_datos_riego_def not_session_open_truthy)

lemma logged_by_append [simp]: "logged_by w (w'\<lparr>dynamo_table := dynamo_table w @ xs\<rparr>) = xs"
  by (simp add: logged_by_def)

lemma logged_by_same [simp]: "dynamo_table w' = dynamo_table w \<Longrightarrow> logged_by w w' = []"
  by (simp add: logged_by_def)

lemma demo_env_fields [simp]:
  "thing_name (demo_env t0 sh) = ''regador''"
  "user_id (demo_env t0 sh) = ''usuario''"
  "clock (demo_env t0 sh) k = t0 + of_nat k"
  "update_ok (demo_env t0 sh)"
  "publish_ok (demo_env t0 sh)"
  "shadow (demo_env t0 sh) = sh"
  "put_ok (demo_env t0 sh)"
  by (simp_all add: demo_env_def ticking_def)

lemma demo_world_fields [simp]:
  "start_time_global (demo_world st) = st"
  "iot_calls (demo_world st) = []"
  "dynamo_table (demo_world st) = []"
  by (simp_all add: demo_world_def)

lemma round_half_even_of_int [simp]: "round_half_even (of_int m) = m"
  by (simp add: round_half_even_def)

lemma py_round2_int [simp]: "py_round2 (of_int n) = of_int n"
proof -
  have "of_int n * 100 = (of_int (n * 100) :: rat)" by simp
  then have "round_half_even (of_int n * 100) = n * 100"
    by (simp only: round_half_even_of_int)
  then show ?thesis by (simp add: py_round2_def)
qed

lemma py_round2_numeral [simp]: "py_round2 (numeral n) = numeral n"
  using py_round2_int [of "numeral n"] by simp

lemma round_half_even_close: "\<bar>of_int (round_half_even y) - y\<bar> \<le> 1 / 2"
proof -
  have "of_int \<lfloor>y\<rfloor> \<le> y" and "y < of_int \<lfloor>y\<rfloor> + 1"
    by linarith+
  then show ?thesis
    by (auto simp add: round_half_even_def Let_def)
qed

text \<open>
  What \<open>py_round2\<close> returns is a whole number of hundredths, at most half a hundredth
  away from the float it rounds.
\<close>

lemma py_round2_nearest:
  "py_round2 x = of_int (round_half_even (x * 100)) / 100"
  "\<bar>py_round2 x - x\<bar> \<le> 1 / 200"
proof -
  show "py_round2 x = of_int (round_half_even (x * 100)) / 100"
    by (simp add: py_round2_def)
  have close: "\<bar>of_int (round_half_even (x * 100)) - x * 100\<bar> \<le> 1 / 2"
    by (rule round_half_even_close)
  have "py_round2 x - x = (of_int (round_half_even (x * 100)) - x * 100) / 100"
    by (simp add: py_round2_def diff_divide_distrib)
  then have "\<bar>py_round2 x - x\<bar> = \<bar>of_int (round_half_even (x * 100)) - x * 100\<bar> / 100"
    by (simp only: abs_divide)
  with close show "\<bar>py_round2 x - x\<bar> \<le> 1 / 200"
    by simp
qed

text \<open>
  \<open>fl\<close> at two familiar values: the doubles nearest to 0.1 and to 1/3.
\<close>

lemma fl_known_values:
  "fl (1 / 10) = 3602879701896397 / 36028797018963968"
  "fl (1 / 3) = 6004799503160661 / 18014398509481984"
  by code_simp+

lemma fl_120: "fl 120 = 120"
  by code_simp

lemma fl_2: "fl 2 = 2"
  by code_simp

lemma fl_10: "fl 10 = 10"
  by code_simp

text \<open>A close 120 seconds after the start, whatever the start.\<close>

lemma two_minutes:
  "fdiv (fsub (s + 120) s) 60 = 2"
  "fmul 2 FLOW_RATE = 10"
  by (simp_all add: fsub_def fdiv_def fmul_def FLOW_RATE_def fl_120 fl_2 fl_10)

text \<open>Closes of a session opened at 1000, at 1120 and at 1180.\<close>

lemma closes_from_1000:
  "py_round2 (fdiv (fsub 1120 1000) 60) = 2"
  "py_round2 (fmul (fdiv (fsub 1120 1000) 60) 5) = 10"
  "py_round2 (fdiv (fsub 1180 1000) 60) = 3"
  "py_round2 (fmul (fdiv (fsub 1180 1000) 60) 5) = 15"
  by code_simp+

subsection \<open>A moist reading while a session is open\<close>

text \<open>
  C1. A moisture query that reads \<open>humedad <= 1300\<close> while a session is open logs the
  closing event (an event with an end time) but does not clear the session:
  \<open>start_time_global\<close> keeps the start it had, so a session is still open after the
  invocation. The deactivation handler does reset the global after logging.
\<close>

theorem C1_moist_reading_keeps_session_open:
  assumes "publish_ok e" and "shadow e = Reported (Some h)" and "h \<le> 1300"
    and "start_time_global w = Some s" and "s \<noteq> 0"
  shows "start_time_global (snd (ConsultarHumedad_handle e w)) = Some s
       \<and> session_open (snd (ConsultarHumedad_handle e w))
       \<and> map EndTime (logged_by w (snd (ConsultarHumedad_handle e w))) =
           (if put_ok e then [Some (gmtime_iso (clock e 2))] else [])
       \<and> map SystemStatus (logged_by w (snd (ConsultarHumedad_handle e w))) =
           (if put_ok e then [''Consulta Humedad''] else [])"
  using assms by (simp add: Consultar_moist_open session_open_def)

theorem C1_moist_reading_keeps_session_open_witness:
  "start_time_global
     (snd (ConsultarHumedad_handle (demo_env 1178 (Reported (Some 1000)))
             (demo_world (Some 1000)))) = Some 1000
   \<and> session_open
       (snd (ConsultarHumedad_handle (demo_env 1178 (Reported (Some 1000)))
               (demo_world (Some 1000))))
   \<and> map EndTime
       (logged_by (demo_world (Some 1000))
          (snd (ConsultarHumedad_handle (demo_env 1178 (Reported (Some 1000)))
                  (demo_world (Some 1000))))) = [Some (ISO 1180)]"
proof -
  let ?e = "demo_env 1178 (Reported (Some 1000))"
  let ?w = "demo_world (Some 1000)"
  have p: "publish_ok ?e" and r: "shadow ?e = Reported (Some 1000)"
    by simp_all
  have h: "(1000::int) \<le> 1300" by simp
  have st: "start_time_global ?w = Some 1000" by simp
  have nz: "(1000::rat) \<noteq> 0" by simp
  show ?thesis
    using C1_moist_reading_keeps_session_open [OF p r h st nz]
    by (simp add: gmtime_iso_def)
qed

subsection \<open>Repeated readings\<close>

text \<open>
  C2, as stated, fails: a dry reading (\<open>humedad > 1300\<close>) while a session is already
  open resets the start time and logs one more opening event. Here the session was
  opened at 1000; after the query its start is the clock reading 1181.
\<close>

theorem C2_dry_reading_resets_open_session:
  "session_open (demo_world (Some 1000))
   \<and> start_time_global
       (snd (ConsultarHumedad_handle (demo_env 1178 (Reported (Some 1400)))
               (demo_world (Some 1000)))) = Some 1181
   \<and> logged_by (demo_world (Some 1000))
       (snd (ConsultarHumedad_handle (demo_env 1178 (Reported (Some 1400)))
               (demo_world (Some 1000)))) =
       [\<lparr>ID = IdFloat 1180 ''regador'', StartTime = ISO 1181, EndTime = None,
         Duration = None, WaterVolume = None, SoilMoisture = Some 1400,
         ThingID = ''regador'', SystemStatus = ''Consulta Humedad'',
         RequestTime = ISO 1179, UserID = ''usuario''\<rparr>]"
  by (simp add: Consultar_dry session_open_def gmtime_iso_def logged_by_def)

text \<open>
  C2, amended. Every dry reading, whether or not a session is open, sets the start
  time to the current clock reading and logs one opening event (no end, duration or
  volume). A moist reading (\<open>humedad <= 1300\<close>) while no session is open logs no closing
  event: it logs one opening event and opens a session.
\<close>

theorem C2_moisture_sample_effect:
  assumes "publish_ok e" and "shadow e = Reported (Some h)"
  shows "(let w' = snd (ConsultarHumedad_handle e w) in
          (1300 < h \<longrightarrow>
             start_time_global w' = Some (clock e 3) \<and>
             logged_by w w' =
               (if put_ok e then
                  [\<lparr>ID = IdFloat (clock e 2) (thing_name e),
                    StartTime = gmtime_iso (clock e 3),
                    EndTime = None, Duration = None, WaterVolume = None,
                    SoilMoisture = Some h, ThingID = thing_name e,
                    SystemStatus = ''Consulta Humedad'',
                    RequestTime = gmtime_iso (clock e 1),
                    UserID = user_id e\<rparr>]
                else []))
        \<and> (h \<le> 1300 \<and> \<not> session_open w \<longrightarrow>
             start_time_global w' = Some (clock e 2) \<and>
             logged_by w w' =
               (if put_ok e then
                  [\<lparr>ID = IdFloat (clock e 0) (thing_name e),
                    StartTime = gmtime_iso (clock e 2),
                    EndTime = None, Duration = None, WaterVolume = None,
                    SoilMoisture = Some h, ThingID = thing_name e,
                    SystemStatus = ''Consulta Humedad'',
                    RequestTime = gmtime_iso (clock e 1),
                    UserID = user_id e\<rparr>]
                else [])))"
proof -
  have dry: "1300 < h \<Longrightarrow> ?thesis"
    using assms by (simp add: Consultar_dry Let_def)
  have moist: "h \<le> 1300 \<Longrightarrow> ?thesis"
  proof (cases "session_open w")
    case True
    assume "h \<le> 1300"
    then show ?thesis using True by (simp add: Let_def)
  next
    case False
    assume "h \<le> 1300"
    then show ?thesis
      using assms False by (simp add: Consultar_moist_not_open Let_def)
  qed
  show ?thesis using dry moist by linarith
qed

theorem C2_moisture_sample_effect_witness:
  "(session_open (demo_world (Some 1000))
    \<and> start_time_global
        (snd (ConsultarHumedad_handle (demo_env 1178 (Reported (Some 1400)))
                (demo_world (Some 1000)))) = Some 1181
    \<and> map EndTime
        (logged_by (demo_world (Some 1000))
           (snd (ConsultarHumedad_handle (demo_env 1178 (Reported (Some 1400)))
                   (demo_world (Some 1000))))) = [None])
   \<and> (\<not> session_open (demo_world None)
    \<and> start_time_global
        (snd (ConsultarHumedad_handle (demo_env 1178 (Reported (Some 1000)))
                (demo_world None))) = Some 1180
    \<and> map EndTime
        (logged_by (demo_world None)
           (snd (ConsultarHumedad_handle (demo_env 1178 (Reported (Some 1000)))
                   (demo_world None)))) = [None])"
proof -
  have p: "publish_ok (demo_env 1178 sh)" for sh by simp
  have r: "shadow (demo_env 1178 (Reported (Some h))) = Reported (Some h)" for h by simp
  show ?thesis
    using C2_moisture_sample_effect [OF p r, of 1400 "demo_world (Some 1000)"]
      C2_moisture_sample_effect [OF p r, of 1000 "demo_world None"]
    by (simp add: Let_def session_open_def)
qed

subsection \<open>Duration and volume of a close\<close>

text \<open>
  The float quotient decides where the exact one lies halfway between two hundredths:
  1.5 seconds are 0.025 minutes exactly and log 0.03, 160.5 seconds are 2.675 minutes
  and log 2.67, 4.5 seconds are 0.075 minutes and log 0.07.
\<close>

lemma duration_at_ties:
  "py_round2 (fdiv (fsub (2003 / 2) 1000) 60) = 3 / 100"
  "py_round2 (fdiv (fsub (3460000321 / 2) 1730000000) 60) = 267 / 100"
  "py_round2 (fdiv (fsub (2009 / 2) 1000) 60) = 7 / 100"
  by code_simp+

lemma volume_at_tie:
  "py_round2 (fmul (fdiv (fsub (2003 / 2) 1000) 60) 5) = 3 / 25"
  by code_simp

lemma one_second:
  "py_round2 (fdiv (fsub 1001 1000) 60) = 1 / 50"
  "py_round2 (fmul (fdiv (fsub 1001 1000) 60) 5) = 2 / 25"
  by code_simp+

lemma py_round2_tenth: "py_round2 (1 / 10) = 1 / 10"
  by code_simp

text \<open>
  C3, as stated, fails: the volume is not computed from the rounded duration. A
  session opened at 1000 and deactivated at 1001 lasted 1/60 minute: the logged
  duration is 0.02, the logged volume is 0.08 (5/60 rounded), and the rounded duration
  times \<open>FLOW_RATE\<close>, rounded, would be 0.10.
\<close>

theorem C3_volume_from_unrounded_duration:
  "map Duration
     (logged_by (demo_world (Some 1000))
        (snd (DesactivarRegador_handle (demo_env 1001 (Reported (Some 1500)))
                (demo_world (Some 1000))))) = [Some (1 / 50)]
   \<and> map WaterVolume
       (logged_by (demo_world (Some 1000))
          (snd (DesactivarRegador_handle (demo_env 1001 (Reported (Some 1500)))
                  (demo_world (Some 1000))))) = [Some (2 / 25)]
   \<and> py_round2 (1 / 50 * FLOW_RATE) = 1 / 10"
proof -
  have "DesactivarRegador_handle (demo_env 1001 (Reported (Some 1500)))
          (demo_world (Some 1000)) =
        (Desactivado (2 / 25),
         demo_world (Some 1000)
           \<lparr>start_time_global := None,
            iot_calls := [UpdateShadow ''regador'' OFF, GetShadow ''regador''],
            dynamo_table :=
              [\<lparr>ID = IdInt 1001 ''regador'', StartTime = ISO 1000,
                EndTime = Some (ISO 1001), Duration = Some (1 / 50),
                WaterVolume = Some (2 / 25), SoilMoisture = Some 1500,
                ThingID = ''regador'', SystemStatus = ''Desactivado'',
                RequestTime = ISO 1001, UserID = ''usuario''\<rparr>]\<rparr>)"
    by (simp add: Desactivar_close [where s = 1000] FLOW_RATE_def gmtime_iso_def
        py_int_def one_second)
  then show ?thesis
    by (simp add: logged_by_def FLOW_RATE_def py_round2_tenth)
qed

text \<open>
  A start time of exactly 0 is falsy in \<open>if start_time_global:\<close>: an activation at
  clock reading 0 followed by a deactivation at 120 closes nothing.
\<close>

lemma start_at_zero_is_not_open:
  "fst (DesactivarRegador_handle (demo_env 120 sh)
          (snd (ActivarRegador_handle (demo_env 0 sh) (demo_world None)))) =
     NoEstabaActivado"
  by (simp add: Activar_result Desactivar_not_open session_open_def)

text \<open>
  C3, amended. For every close of a session (by deactivation, at the first clock
  reading of the invocation, or by a moist reading, at the third) with the end not
  before the start, the logged duration is the float quotient \<open>(end - start) / 60\<close>, as
  binary64 arithmetic gives it, rounded to 2 places: a whole number of hundredths at
  most 0.005 away from that quotient (\<open>py_round2_nearest\<close>), which where the exact
  quotient lies halfway between two hundredths is the one the float quotient is nearer
  to (\<open>duration_at_ties\<close>). The logged volume is the unrounded float duration times
  \<open>FLOW_RATE\<close>, as a float product, rounded to 2 places; it is not computed from the
  rounded duration. In particular a deactivation 120 seconds after the start logs
  duration 2 and volume 10. A session is open when \<open>start_time_global\<close> holds a start
  other than 0.
\<close>

theorem C3_close_duration_and_volume:
  assumes "start_time_global w = Some s" and "s \<noteq> 0" and "put_ok e"
  shows "(update_ok e \<and> shadow e = Reported m \<and> s \<le> clock e 0 \<longrightarrow>
            map Duration (logged_by w (snd (DesactivarRegador_handle e w))) =
              [Some (py_round2 (fdiv (fsub (clock e 0) s) 60))] \<and>
            map WaterVolume (logged_by w (snd (DesactivarRegador_handle e w))) =
              [Some (py_round2 (fmul (fdiv (fsub (clock e 0) s) 60) FLOW_RATE))])
       \<and> (publish_ok e \<and> shadow e = Reported (Some h) \<and> h \<le> 1300 \<and> s \<le> clock e 2 \<longrightarrow>
            map Duration (logged_by w (snd (ConsultarHumedad_handle e w))) =
              [Some (py_round2 (fdiv (fsub (clock e 2) s) 60))] \<and>
            map WaterVolume (logged_by w (snd (ConsultarHumedad_handle e w))) =
              [Some (py_round2 (fmul (fdiv (fsub (clock e 2) s) 60) FLOW_RATE))])
       \<and> (update_ok e \<and> shadow e = Reported m \<and> clock e 0 = s + 120 \<longrightarrow>
            map Duration (logged_by w (snd (DesactivarRegador_handle e w))) = [Some 2] \<and>
            map WaterVolume (logged_by w (snd (DesactivarRegador_handle e w))) = [Some 10])
       \<and> \<bar>py_round2 (fdiv (fsub (clock e 0) s) 60) - fdiv (fsub (clock e 0) s) 60\<bar>
            \<le> 1 / 200
       \<and> \<bar>py_round2 (fdiv (fsub (clock e 2) s) 60) - fdiv (fsub (clock e 2) s) 60\<bar>
            \<le> 1 / 200"
proof -
  have deact: "update_ok e \<Longrightarrow> shadow e = Reported m \<Longrightarrow>
      map Duration (logged_by w (snd (DesactivarRegador_handle e w))) =
        [Some (py_round2 (fdiv (fsub (clock e 0) s) 60))] \<and>
      map WaterVolume (logged_by w (snd (DesactivarRegador_handle e w))) =
        [Some (py_round2 (fmul (fdiv (fsub (clock e 0) s) 60) FLOW_RATE))]"
    using assms by (simp add: Desactivar_close)
  have query: "publish_ok e \<Longrightarrow> shadow e = Reported (Some h) \<Longrightarrow> h \<le> 1300 \<Longrightarrow>
      map Duration (logged_by w (snd (ConsultarHumedad_handle e w))) =
        [Some (py_round2 (fdiv (fsub (clock e 2) s) 60))] \<and>
      map WaterVolume (logged_by w (snd (ConsultarHumedad_handle e w))) =
        [Some (py_round2 (fmul (fdiv (fsub (clock e 2) s) 60) FLOW_RATE))]"
    using assms by (simp add: Consultar_moist_open)
  have two: "update_ok e \<Longrightarrow> shadow e = Reported m \<Longrightarrow> clock e 0 = s + 120 \<Longrightarrow>
      map Duration (logged_by w (snd (DesactivarRegador_handle e w))) = [Some 2] \<and>
      map WaterVolume (logged_by w (snd (DesactivarRegador_handle e w))) = [Some 10]"
    using deact by (simp add: two_minutes)
  show ?thesis
    using deact query two py_round2_nearest(2) by blast
qed

text \<open>
  The witness closes a session opened at 1000 four times: by a deactivation at 1120,
  by a deactivation at 1001.5 (the exact quotient 0.025 is a tie; 0.03 and 0.12 are
  logged), by a moist reading whose third clock reading is 1180, and by a moist
  reading whose third clock reading is 1004.5 (the exact quotient 0.075 is a tie; 0.07
  is logged).
\<close>

theorem C3_close_duration_and_volume_witness:
  "(map Duration
      (logged_by (demo_world (Some 1000))
         (snd (DesactivarRegador_handle (demo_env 1120 (Reported (Some 1500)))
                 (demo_world (Some 1000))))) = [Some 2]
    \<and> map WaterVolume
        (logged_by (demo_world (Some 1000))
           (snd (DesactivarRegador_handle (demo_env 1120 (Reported (Some 1500)))
                   (demo_world (Some 1000))))) = [Some 10])
   \<and> (map Duration
        (logged_by (demo_world (Some 1000))
           (snd (DesactivarRegador_handle (demo_env (2003 / 2) (Reported (Some 1500)))
                   (demo_world (Some 1000))))) = [Some (3 / 100)]
    \<and> map WaterVolume
        (logged_by (demo_world (Some 1000))
           (snd (DesactivarRegador_handle (demo_env (2003 / 2) (Reported (Some 1500)))
                   (demo_world (Some 1000))))) = [Some (3 / 25)])
   \<and> (map Duration
        (logged_by (demo_world (Some 1000))
           (snd (ConsultarHumedad_handle (demo_env 1178 (Reported (Some 1000)))
                   (demo_world (Some 1000))))) = [Some 3]
    \<and> map WaterVolume
        (logged_by (demo_world (Some 1000))
           (snd (ConsultarHumedad_handle (demo_env 1178 (Reported (Some 1000)))
                   (demo_world (Some 1000))))) = [Some 15])
   \<and> map Duration
       (logged_by (demo_world (Some 1000))
          (snd (ConsultarHumedad_handle (demo_env (2005 / 2) (Reported (Some 1000)))
                  (demo_world (Some 1000))))) = [Some (7 / 100)]"
proof -
  have st: "start_time_global (demo_world (Some 1000)) = Some 1000" by simp
  have nz: "(1000::rat) \<noteq> 0" by simp
  have po: "put_ok (demo_env t0 sh)" for t0 sh by simp
  show ?thesis
    using C3_close_duration_and_volume [OF st nz po,
        of 1120 "Reported (Some 1500)" "Some 1500" 1000]
      C3_close_duration_and_volume [OF st nz po,
        of "2003 / 2" "Reported (Some 1500)" "Some 1500" 1000]
      C3_close_duration_and_volume [OF st nz po,
        of 1178 "Reported (Some 1000)" "Some 1000" 1000]
      C3_close_duration_and_volume [OF st nz po,
        of "2005 / 2" "Reported (Some 1000)" "Some 1000" 1000]
    by (simp add: FLOW_RATE_def duration_at_ties volume_at_tie closes_from_1000)
qed

subsection \<open>The spoken classification\<close>

text \<open>
  C4. At exactly \<open>humedad = 1300\<close> the spoken state is \<open>seco\<close> (dry): the sentence is
  chosen by \<open>humedad < 1300\<close>, while the session logic two lines below takes 1300 as
  not dry (\<open>humedad > 1300\<close> is false).
\<close>

theorem C4_threshold_reading_spoken_dry:
  assumes "publish_ok e" and "shadow e = Reported (Some 1300)"
  shows "fst (ConsultarHumedad_handle e w) = NivelHumedad 1300 Seco"
proof (cases "session_open w")
  case True
  then obtain s where "start_time_global w = Some s" and "s \<noteq> 0"
    by (auto simp add: session_open_iff)
  then show ?thesis using assms by (simp add: Consultar_moist_open)
next
  case False
  then show ?thesis using assms by (simp add: Consultar_moist_not_open)
qed

theorem C4_threshold_reading_spoken_dry_witness:
  "fst (ConsultarHumedad_handle (demo_env 1178 (Reported (Some 1300))) (demo_world None)) =
     NivelHumedad 1300 Seco
   \<and> fst (ConsultarHumedad_handle (demo_env 1178 (Reported (Some 1299))) (demo_world None)) =
     NivelHumedad 1299 Humedo"
proof -
  have p: "publish_ok (demo_env 1178 (Reported (Some 1300)))"
    and r: "shadow (demo_env 1178 (Reported (Some 1300))) = Reported (Some 1300)"
    by simp_all
  have "fst (ConsultarHumedad_handle (demo_env 1178 (Reported (Some 1299))) (demo_world None)) =
     NivelHumedad 1299 Humedo"
    by (simp add: Consultar_moist_not_open session_open_def)
  then show ?thesis
    using C4_threshold_reading_spoken_dry [OF p r, of "demo_world None"] by simp
qed

subsection \<open>Transport failures\<close>

lemma Desactivar_failure_keeps_session:
  "fst (DesactivarRegador_handle e w) = ProblemaDesactivar \<Longrightarrow>
   start_time_global (snd (DesactivarRegador_handle e w)) = start_time_global w \<and>
   dynamo_table (snd (DesactivarRegador_handle e w)) = dynamo_table w"
  by (auto simp add: DesactivarRegador_handle_def iot_call_made_def Let_def
      split: if_splits option.splits shadow_read.splits)

lemma Consultar_failure_keeps_session:
  "fst (ConsultarHumedad_handle e w) = ProblemaHumedad \<Longrightarrow>
   start_time_global (snd (ConsultarHumedad_handle e w)) = start_time_global w \<and>
   dynamo_table (snd (ConsultarHumedad_handle e w)) = dynamo_table w"
  by (auto simp add: ConsultarHumedad_handle_def iot_call_made_def Let_def
      split: if_splits option.splits shadow_read.splits)

text \<open>
  C5. When \<open>update_thing_shadow\<close> raises during an activation, the handler speaks the
  error sentence, but the start time assigned before the \<open>try\<close> stays: a session is
  open from the current clock reading although the pump was not switched on. The other
  two handlers change the global only after their transport calls have returned
  (\<open>Desactivar_failure_keeps_session\<close>, \<open>Consultar_failure_keeps_session\<close>).
\<close>

theorem C5_failed_activation_keeps_start_time:
  assumes "\<not> update_ok e"
  shows "fst (ActivarRegador_handle e w) = ProblemaActivar
       \<and> start_time_global (snd (ActivarRegador_handle e w)) = Some (clock e 0)"
  using assms by (simp add: Activar_result)

theorem C5_failed_activation_keeps_start_time_witness:
  "start_time_global (demo_world None) = None
   \<and> fst (ActivarRegador_handle ((demo_env 1178 (Reported None))\<lparr>update_ok := False\<rparr>)
            (demo_world None)) = ProblemaActivar
   \<and> start_time_global
       (snd (ActivarRegador_handle ((demo_env 1178 (Reported None))\<lparr>update_ok := False\<rparr>)
               (demo_world None))) = Some 1178"
proof -
  have f: "\<not> update_ok ((demo_env 1178 (Reported None))\<lparr>update_ok := False\<rparr>)" by simp
  show ?thesis
    using C5_failed_activation_keeps_start_time [OF f, of "demo_world None"] by simp
qed

subsection \<open>Deactivation with no session open\<close>

text \<open>
  C6, as stated, fails: with no session open and \<open>update_thing_shadow\<close> raising, the
  spoken response is the error sentence, not the "was not active" one.
\<close>

theorem C6_not_active_needs_update:
  "\<not> session_open (demo_world None)
   \<and> fst (DesactivarRegador_handle ((demo_env 1178 (Reported None))\<lparr>update_ok := False\<rparr>)
            (demo_world None)) = ProblemaDesactivar"
  by (simp add: Desactivar_update_fails session_open_def)

text \<open>
  C6, amended. For every deactivation while no session is open, nothing is appended
  to the table and the session stays closed; the spoken response is the "was not
  active" sentence when the pump-off update of the shadow succeeds, and the error
  sentence when it raises.
\<close>

theorem C6_deactivation_without_session:
  assumes "\<not> session_open w"
  shows "dynamo_table (snd (DesactivarRegador_handle e w)) = dynamo_table w
       \<and> start_time_global (snd (DesactivarRegador_handle e w)) = start_time_global w
       \<and> \<not> session_open (snd (DesactivarRegador_handle e w))
       \<and> fst (DesactivarRegador_handle e w) =
           (if update_ok e then NoEstabaActivado else ProblemaDesactivar)"
proof (cases "update_ok e")
  case True
  then show ?thesis
    using assms by (simp add: Desactivar_not_open session_open_def)
next
  case False
  then show ?thesis
    using assms by (simp add: Desactivar_update_fails session_open_def)
qed

theorem C6_deactivation_without_session_witness:
  "\<not> session_open (demo_world None)
   \<and> dynamo_table (snd (DesactivarRegador_handle (demo_env 1178 (Reported None))
                          (demo_world None))) = []
   \<and> start_time_global (snd (DesactivarRegador_handle (demo_env 1178 (Reported None))
                               (demo_world None))) = None
   \<and> fst (DesactivarRegador_handle (demo_env 1178 (Reported None)) (demo_world None)) =
       NoEstabaActivado"
proof -
  have n: "\<not> session_open (demo_world None)" by (simp add: session_open_def)
  show ?thesis
    using n C6_deactivation_without_session [OF n, of "demo_env 1178 (Reported None)"]
    by simp
qed

subsection \<open>The event identifier\<close>

text \<open>
  C7, as stated, fails for the events of the moisture query: their identifier holds
  the float clock reading, not truncated, taken before the branch, and the end time of
  a close is a later reading. With readings 1178.5, 1179.5, 1180.5 the closing event
  has the identifier of 1178.5 and the end time of 1180.5.
\<close>

theorem C7_query_id_is_an_earlier_float_reading:
  "map ID
     (logged_by (demo_world (Some 1000))
        (snd (ConsultarHumedad_handle (demo_env (2357 / 2) (Reported (Some 1000)))
                (demo_world (Some 1000))))) = [IdFloat (2357 / 2) ''regador'']
   \<and> map EndTime
       (logged_by (demo_world (Some 1000))
          (snd (ConsultarHumedad_handle (demo_env (2357 / 2) (Reported (Some 1000)))
                  (demo_world (Some 1000))))) = [Some (gmtime_iso (2361 / 2))]
   \<and> IdFloat (2357 / 2) ''regador'' \<noteq> IdInt (py_int (2361 / 2)) ''regador''
   \<and> (2357 / 2 :: rat) \<noteq> 2361 / 2"
  by (simp add: Consultar_moist_open [where s = 1000] logged_by_def)

text \<open>
  C7, amended. The event logged by a deactivation has as identifier the
  integer-truncated end timestamp with the device identifier, and that timestamp is
  the reading its end time is formatted from. The event logged by a moisture query has
  as identifier a float clock reading, not truncated, with the device identifier: the
  third reading of the invocation for a dry reading, the first otherwise; when the
  query closes a session, the end time is formatted from the third reading, not from
  the one in the identifier.
\<close>

theorem C7_event_id:
  assumes "put_ok e"
  shows "(update_ok e \<and> shadow e = Reported m \<and> session_open w \<longrightarrow>
            map ID (logged_by w (snd (DesactivarRegador_handle e w))) =
              [IdInt (py_int (clock e 0)) (thing_name e)] \<and>
            map EndTime (logged_by w (snd (DesactivarRegador_handle e w))) =
              [Some (gmtime_iso (clock e 0))])
       \<and> (publish_ok e \<and> shadow e = Reported (Some h) \<longrightarrow>
            map ID (logged_by w (snd (ConsultarHumedad_handle e w))) =
              [IdFloat (clock e (if 1300 < h then 2 else 0)) (thing_name e)] \<and>
            map EndTime (logged_by w (snd (ConsultarHumedad_handle e w))) =
              [if h \<le> 1300 \<and> session_open w then Some (gmtime_iso (clock e 2)) else None])"
proof -
  have deact: "update_ok e \<Longrightarrow> shadow e = Reported m \<Longrightarrow> session_open w \<Longrightarrow>
      map ID (logged_by w (snd (DesactivarRegador_handle e w))) =
        [IdInt (py_int (clock e 0)) (thing_name e)] \<and>
      map EndTime (logged_by w (snd (DesactivarRegador_handle e w))) =
        [Some (gmtime_iso (clock e 0))]"
    using assms by (auto simp add: session_open_iff Desactivar_close)
  have query: "
      map ID (logged_by w (snd (ConsultarHumedad_handle e w))) =
        [IdFloat (clock e (if 1300 < h then 2 else 0)) (thing_name e)] \<and>
      map EndTime (logged_by w (snd (ConsultarHumedad_handle e w))) =
        [if h \<le> 1300 \<and> session_open w then Some (gmtime_iso (clock e 2)) else None]"
    if p: "publish_ok e" and r: "shadow e = Reported (Some h)"
  proof (cases "1300 < h")
    case True
    then show ?thesis using assms p r by (simp add: Consultar_dry)
  next
    case dry: False
    show ?thesis
    proof (cases "session_open w")
      case True
      then obtain s where "start_time_global w = Some s" and "s \<noteq> 0"
        by (auto simp add: session_open_iff)
      then show ?thesis
        using assms p r dry True by (simp add: Consultar_moist_open)
    next
      case False
      then show ?thesis
        using assms p r dry by (simp add: Consultar_moist_not_open)
    qed
  qed
  show ?thesis using deact query by blast
qed

theorem C7_event_id_witness:
  "(session_open (demo_world (Some 1000))
    \<and> map ID
        (logged_by (demo_world (Some 1000))
           (snd (DesactivarRegador_handle (demo_env (2357 / 2) (Reported (Some 1500)))
                   (demo_world (Some 1000))))) = [IdInt 1178 ''regador'']
    \<and> map EndTime
        (logged_by (demo_world (Some 1000))
           (snd (DesactivarRegador_handle (demo_env (2357 / 2) (Reported (Some 1500)))
                   (demo_world (Some 1000))))) = [Some (ISO 1178)])
   \<and> (map ID
        (logged_by (demo_world (Some 1000))
           (snd (ConsultarHumedad_handle (demo_env (2357 / 2) (Reported (Some 1000)))
                   (demo_world (Some 1000))))) = [IdFloat (2357 / 2) ''regador'']
    \<and> map EndTime
        (logged_by (demo_world (Some 1000))
           (snd (ConsultarHumedad_handle (demo_env (2357 / 2) (Reported (Some 1000)))
                   (demo_world (Some 1000))))) = [Some (ISO 1180)])"
proof -
  have po: "put_ok (demo_env t0 sh)" for t0 sh by simp
  have so: "session_open (demo_world (Some 1000))" by (simp add: session_open_def)
  have fl: "\<lfloor>2357 / 2 :: rat\<rfloor> = 1178" "\<lfloor>2361 / 2 :: rat\<rfloor> = 1180" by linarith+
  show ?thesis
    using so
      C7_event_id [OF po, of "2357 / 2" "Reported (Some 1500)" "Some 1500"
        "demo_world (Some 1000)"]
      C7_event_id [OF po, of "2357 / 2" "Reported (Some 1000)" "Some 1000"
        "demo_world (Some 1000)" 1000]
    by (simp add: gmtime_iso_def py_int_def fl)
qed

subsection \<open>A shadow without a moisture value\<close>




subsection \<open>The pump-off command\<close>

text \<open>
  C9. Every deactivation makes the pump-off update of the shadow its first call on the
  IoT client, whatever the session state; when no session is open it is the only call
  made, and the response is then the "was not active" sentence if the update returned.
\<close>

theorem C9_pump_off_sent_first:
  "take (Suc (length (iot_calls w))) (iot_calls (snd (DesactivarRegador_handle e w))) =
     iot_calls w @ [UpdateShadow (thing_name e) OFF]
   \<and> (\<not> session_open w \<longrightarrow>
        iot_calls (snd (DesactivarRegador_handle e w)) =
          iot_calls w @ [UpdateShadow (thing_name e) OFF])
   \<and> (\<not> session_open w \<and> update_ok e \<longrightarrow>
        fst (DesactivarRegador_handle e w) = NoEstabaActivado)"
proof -
  have first: "take (Suc (length (iot_calls w)))
        (iot_calls (snd (DesactivarRegador_handle e w))) =
      iot_calls w @ [UpdateShadow (thing_name e) OFF]"
    by (simp add: DesactivarRegador_handle_def iot_call_made_def Let_def
        insertar_datos_riego_def split: option.splits shadow_read.splits)
  have only: "\<not> session_open w \<Longrightarrow>
      iot_calls (snd (DesactivarRegador_handle e w)) =
        iot_calls w @ [UpdateShadow (thing_name e) OFF]"
    by (cases "update_ok e") (simp_all add: Desactivar_not_open Desactivar_update_fails)
  have spoken: "\<not> session_open w \<Longrightarrow> update_ok e \<Longrightarrow>
      fst (DesactivarRegador_handle e w) = NoEstabaActivado"
    by (simp add: Desactivar_not_open)
  show ?thesis using first only spoken by blast
qed

theorem C9_pump_off_sent_first_witness:
  "\<not> session_open (demo_world None)
   \<and> iot_calls (snd (DesactivarRegador_handle (demo_env 1178 (Reported None))
                       (demo_world None))) = [UpdateShadow ''regador'' OFF]
   \<and> fst (DesactivarRegador_handle (demo_env 1178 (Reported None)) (demo_world None)) =
       NoEstabaActivado"
proof -
  have n: "\<not> session_open (demo_world None)" by (simp add: session_open_def)
  show ?thesis
    using n C9_pump_off_sent_first [of "demo_world None" "demo_env 1178 (Reported None)"]
    by simp
qed

subsection \<open>Activation while a session is open\<close>

text \<open>
  C10, as stated, fails for "any later close": a dry moisture reading between the
  activation and the close sets the start time again. After an activation at 1100 and
  a dry reading whose fourth clock reading is 1181, a deactivation at 1280 logs a
  session that started at 1181, with duration 1.65 (99 seconds), not 3 (180 seconds).
\<close>

lemma ninety_nine_seconds: "py_round2 (fdiv (fsub 1280 1181) 60) = 33 / 20"
  by code_simp

theorem C10_dry_reading_between_moves_start:
  "start_time_global
     (snd (ActivarRegador_handle (demo_env 1100 (Reported None)) (demo_world None))) =
     Some 1100
   \<and> start_time_global
       (snd (ConsultarHumedad_handle (demo_env 1178 (Reported (Some 1400)))
               (snd (ActivarRegador_handle (demo_env 1100 (Reported None))
                       (demo_world None))))) = Some 1181
   \<and> map StartTime
       (dynamo_table
          (snd (DesactivarRegador_handle (demo_env 1280 (Reported (Some 1400)))
                  (snd (ConsultarHumedad_handle (demo_env 1178 (Reported (Some 1400)))
                          (snd (ActivarRegador_handle (demo_env 1100 (Reported None))
                                  (demo_world None)))))))) = [ISO 1181, ISO 1181]
   \<and> map Duration
       (dynamo_table
          (snd (DesactivarRegador_handle (demo_env 1280 (Reported (Some 1400)))
                  (snd (ConsultarHumedad_handle (demo_env 1178 (Reported (Some 1400)))
                          (snd (ActivarRegador_handle (demo_env 1100 (Reported None))
                                  (demo_world None)))))))) = [None, Some (33 / 20)]"
  by (simp add: Activar_result Consultar_dry Desactivar_close [where s = 1181]
      gmtime_iso_def ninety_nine_seconds)

text \<open>
  C10, amended. Every activation sets the start time to the current clock reading,
  whatever it was before, so the start of a session already open is discarded; the
  close that comes next, with no moisture query in between (a deactivation, or a
  moisture query reading \<open>humedad <= 1300\<close>), logs that reading as the start of the
  session and computes the logged duration and volume from it.
\<close>

theorem C10_activation_overwrites_start:
  "start_time_global (snd (ActivarRegador_handle e w)) = Some (clock e 0)
   \<and> (clock e 0 \<noteq> 0 \<and> update_ok e2 \<and> shadow e2 = Reported m \<and> put_ok e2 \<longrightarrow>
        logged_by (snd (ActivarRegador_handle e w))
          (snd (DesactivarRegador_handle e2 (snd (ActivarRegador_handle e w)))) =
          [\<lparr>ID = IdInt (py_int (clock e2 0)) (thing_name e2),
            StartTime = gmtime_iso (clock e 0),
            EndTime = Some (gmtime_iso (clock e2 0)),
            Duration = Some (py_round2 (fdiv (fsub (clock e2 0) (clock e 0)) 60)),
            WaterVolume =
              Some (py_round2 (fmul (fdiv (fsub (clock e2 0) (clock e 0)) 60) FLOW_RATE)),
            SoilMoisture = m,
            ThingID = thing_name e2,
            SystemStatus = ''Desactivado'',
            RequestTime = gmtime_iso (clock e2 0),
            UserID = user_id e2\<rparr>])
   \<and> (clock e 0 \<noteq> 0 \<and> publish_ok e2 \<and> shadow e2 = Reported (Some h) \<and> h \<le> 1300
        \<and> put_ok e2 \<longrightarrow>
        logged_by (snd (ActivarRegador_handle e w))
          (snd (ConsultarHumedad_handle e2 (snd (ActivarRegador_handle e w)))) =
          [\<lparr>ID = IdFloat (clock e2 0) (thing_name e2),
            StartTime = gmtime_iso (clock e 0),
            EndTime = Some (gmtime_iso (clock e2 2)),
            Duration = Some (py_round2 (fdiv (fsub (clock e2 2) (clock e 0)) 60)),
            WaterVolume =
              Some (py_round2 (fmul (fdiv (fsub (clock e2 2) (clock e 0)) 60) FLOW_RATE)),
            SoilMoisture = Some h,
            ThingID = thing_name e2,
            SystemStatus = ''Consulta Humedad'',
            RequestTime = gmtime_iso (clock e2 1),
            UserID = user_id e2\<rparr>])"
proof -
  let ?w1 = "snd (ActivarRegador_handle e w)"
  have st: "start_time_global ?w1 = Some (clock e 0)"
    by (simp add: Activar_result)
  have deact: "clock e 0 \<noteq> 0 \<Longrightarrow> update_ok e2 \<Longrightarrow> shadow e2 = Reported m \<Longrightarrow> put_ok e2 \<Longrightarrow>
      logged_by ?w1 (snd (DesactivarRegador_handle e2 ?w1)) =
        [\<lparr>ID = IdInt (py_int (clock e2 0)) (thing_name e2),
          StartTime = gmtime_iso (clock e 0),
          EndTime = Some (gmtime_iso (clock e2 0)),
          Duration = Some (py_round2 (fdiv (fsub (clock e2 0) (clock e 0)) 60)),
          WaterVolume =
            Some (py_round2 (fmul (fdiv (fsub (clock e2 0) (clock e 0)) 60) FLOW_RATE)),
          SoilMoisture = m,
          ThingID = thing_name e2,
          SystemStatus = ''Desactivado'',
          RequestTime = gmtime_iso (clock e2 0),
          UserID = user_id e2\<rparr>]"
    using st by (simp add: Desactivar_close [where w = ?w1 and s = "clock e 0"])
  have query: "clock e 0 \<noteq> 0 \<Longrightarrow> publish_ok e2 \<Longrightarrow> shadow e2 = Reported (Some h) \<Longrightarrow>
      h \<le> 1300 \<Longrightarrow> put_ok e2 \<Longrightarrow>
      logged_by ?w1 (snd (ConsultarHumedad_handle e2 ?w1)) =
        [\<lparr>ID = IdFloat (clock e2 0) (thing_name e2),
          StartTime = gmtime_iso (clock e 0),
          EndTime = Some (gmtime_iso (clock e2 2)),
          Duration = Some (py_round2 (fdiv (fsub (clock e2 2) (clock e 0)) 60)),
          WaterVolume =
            Some (py_round2 (fmul (fdiv (fsub (clock e2 2) (clock e 0)) 60) FLOW_RATE)),
          SoilMoisture = Some h,
          ThingID = thing_name e2,
          SystemStatus = ''Consulta Humedad'',
          RequestTime = gmtime_iso (clock e2 1),
          UserID = user_id e2\<rparr>]"
    using st by (simp add: Consultar_moist_open [where w = ?w1 and s = "clock e 0"])
  show ?thesis using st deact query by blast
qed

text \<open>
  The witness activates at 1100 while a session is open since 1000, then closes: by a
  deactivation at 1220, by a deactivation at 1101.5 (0.03 is logged, the float quotient
  deciding the tie), and by a moist reading whose third clock reading is 1280.
\<close>

lemma closes_from_1100:
  "py_round2 (fdiv (fsub 1220 1100) 60) = 2"
  "py_round2 (fmul (fdiv (fsub 1220 1100) 60) 5) = 10"
  "py_round2 (fdiv (fsub (2203 / 2) 1100) 60) = 3 / 100"
  "py_round2 (fdiv (fsub 1280 1100) 60) = 3"
  "py_round2 (fmul (fdiv (fsub 1280 1100) 60) 5) = 15"
  by code_simp+

theorem C10_activation_overwrites_start_witness:
  "session_open (demo_world (Some 1000))
   \<and> start_time_global
       (snd (ActivarRegador_handle (demo_env 1100 (Reported None))
               (demo_world (Some 1000)))) = Some 1100
   \<and> map StartTime
       (logged_by
          (snd (ActivarRegador_handle (demo_env 1100 (Reported None))
                  (demo_world (Some 1000))))
          (snd (DesactivarRegador_handle (demo_env 1220 (Reported (Some 1500)))
                  (snd (ActivarRegador_handle (demo_env 1100 (Reported None))
                          (demo_world (Some 1000))))))) = [ISO 1100]
   \<and> map Duration
       (logged_by
          (snd (ActivarRegador_handle (demo_env 1100 (Reported None))
                  (demo_world (Some 1000))))
          (snd (DesactivarRegador_handle (demo_env 1220 (Reported (Some 1500)))
                  (snd (ActivarRegador_handle (demo_env 1100 (Reported None))
                          (demo_world (Some 1000))))))) = [Some 2]
   \<and> map WaterVolume
       (logged_by
          (snd (ActivarRegador_handle (demo_env 1100 (Reported None))
                  (demo_world (Some 1000))))
          (snd (DesactivarRegador_handle (demo_env 1220 (Reported (Some 1500)))
                  (snd (ActivarRegador_handle (demo_env 1100 (Reported None))
                          (demo_world (Some 1000))))))) = [Some 10]
   \<and> map Duration
       (logged_by
          (snd (ActivarRegador_handle (demo_env 1100 (Reported None))
                  (demo_world (Some 1000))))
          (snd (DesactivarRegador_handle (demo_env (2203 / 2) (Reported (Some 1500)))
                  (snd (ActivarRegador_handle (demo_env 1100 (Reported None))
                          (demo_world (Some 1000))))))) = [Some (3 / 100)]
   \<and> map Duration
       (logged_by
          (snd (ActivarRegador_handle (demo_env 1100 (Reported None))
                  (demo_world (Some 1000))))
          (snd (ConsultarHumedad_handle (demo_env 1278 (Reported (Some 1000)))
                  (snd (ActivarRegador_handle (demo_env 1100 (Reported None))
                          (demo_world (Some 1000))))))) = [Some 3]
   \<and> map WaterVolume
       (logged_by
          (snd (ActivarRegador_handle (demo_env 1100 (Reported None))
                  (demo_world (Some 1000))))
          (snd (ConsultarHumedad_handle (demo_env 1278 (Reported (Some 1000)))
                  (snd (ActivarRegador_handle (demo_env 1100 (Reported None))
                          (demo_world (Some 1000))))))) = [Some 15]"
proof -
  have so: "session_open (demo_world (Some 1000))" by (simp add: session_open_def)
  show ?thesis
    using so
      C10_activation_overwrites_start [of "demo_env 1100 (Reported None)"
        "demo_world (Some 1000)" "demo_env 1220 (Reported (Some 1500))" "Some 1500"]
      C10_activation_overwrites_start [of "demo_env 1100 (Reported None)"
        "demo_world (Some 1000)" "demo_env (2203 / 2) (Reported (Some 1500))" "Some 1500"]
      C10_activation_overwrites_start [of "demo_env 1100 (Reported None)"
        "demo_world (Some 1000)" "demo_env 1278 (Reported (Some 1000))" "Some 1000" 1000]
    by (simp add: FLOW_RATE_def gmtime_iso_def closes_from_1100)
qed

end
